theory Spec2Isabelle
  imports Main "HOL-Library.Word"
begin

section \<open>JavaScript values\<close>

text \<open>
  The tool's saved data and the backend's upload response are plain JSON-like
  JavaScript values. Objects keep their keys in insertion order, so an object is an
  association list; a well-formed object has distinct keys. Numbers are the integers
  (no claim verified here depends on a fractional number or on NaN).
\<close>

datatype jsval =
    JUndefined
  | JNull
  | JBool bool
  | JNum int
  | JStr string
  | JArr "jsval list"
  | JObj "(string \<times> jsval) list"

datatype js_error = TypeError | InvalidStateError | NotSupportedError | Error string

text \<open>JavaScript's ToBoolean: what \<^verbatim>\<open>if (x)\<close>, \<^verbatim>\<open>x && y\<close> and \<^verbatim>\<open>x || y\<close> test.\<close>

fun truthy :: "jsval \<Rightarrow> bool" where
  "truthy JUndefined = False"
| "truthy JNull = False"
| "truthy (JBool b) = b"
| "truthy (JNum n) = (n \<noteq> 0)"
| "truthy (JStr s) = (s \<noteq> [])"
| "truthy (JArr xs) = True"
| "truthy (JObj fs) = True"

text \<open>
  Reading a property \<^verbatim>\<open>v.k\<close>. On \<^verbatim>\<open>undefined\<close> and \<^verbatim>\<open>null\<close> it throws a
  TypeError; on an object it is the stored value or \<^verbatim>\<open>undefined\<close>. The program only
  reads the names \<^verbatim>\<open>success\<close>, \<^verbatim>\<open>file\<close> and \<^verbatim>\<open>url\<close>, which no primitive and
  no array carries, so there the result is \<^verbatim>\<open>undefined\<close>.
\<close>

fun js_get :: "jsval \<Rightarrow> string \<Rightarrow> js_error + jsval" where
  "js_get JUndefined k = Inl TypeError"
| "js_get JNull k = Inl TypeError"
| "js_get (JObj fs) k = Inr (case map_of fs k of None \<Rightarrow> JUndefined | Some v \<Rightarrow> v)"
| "js_get v k = Inr JUndefined"

text \<open>Assigning a property \<^verbatim>\<open>o.k = v\<close>: an existing key keeps its place, a new one goes last.\<close>

fun obj_set :: "string \<Rightarrow> jsval \<Rightarrow> (string \<times> jsval) list \<Rightarrow> (string \<times> jsval) list" where
  "obj_set k v [] = [(k, v)]"
| "obj_set k v (p # ps) = (if fst p = k then (k, v) # ps else p # obj_set k v ps)"

text \<open>
  \<^verbatim>\<open>Object.keys(v).length\<close>: the own enumerable keys of an object, the indices of an
  array or of a string, none for the other primitives.
\<close>

fun object_keys_length :: "jsval \<Rightarrow> nat" where
  "object_keys_length (JObj fs) = length (remdups (map fst fs))"
| "object_keys_length (JArr xs) = length xs"
| "object_keys_length (JStr s) = length s"
| "object_keys_length v = 0"

subsection \<open>JSON.stringify\<close>

text \<open>
  \<^verbatim>\<open>String(num)\<close> for a whole number: its decimal digits, after a minus sign when it
  is negative.
\<close>

definition digit_char :: "nat \<Rightarrow> char" where
  "digit_char d = ''0123456789'' ! d"

fun String_nat :: "nat \<Rightarrow> string" where
  "String_nat n =
     (if 10 \<le> n then String_nat (n div 10) @ [digit_char (n mod 10)] else [digit_char n])"

declare String_nat.simps [simp del]

definition String_int :: "int \<Rightarrow> string" where
  "String_int i = (if 0 \<le> i then String_nat (nat i) else CHR ''-'' # String_nat (nat (- i)))"

definition hex_digit :: "nat \<Rightarrow> char" where
  "hex_digit n = ''0123456789abcdef'' ! n"

text \<open>
  QuoteJSONString: the double quote and the backslash are escaped, the control
  characters below U+0020 get their short escape or \<^verbatim>\<open>\u00XX\<close>.
\<close>

definition json_escape :: "char \<Rightarrow> string" where
  "json_escape c =
     (if c = CHR 0x22 then [CHR 0x5C, CHR 0x22]
      else if c = CHR 0x5C then [CHR 0x5C, CHR 0x5C]
      else if c = CHR 0x08 then [CHR 0x5C, CHR ''b'']
      else if c = CHR 0x0C then [CHR 0x5C, CHR ''f'']
      else if c = CHR 0x0A then [CHR 0x5C, CHR ''n'']
      else if c = CHR 0x0D then [CHR 0x5C, CHR ''r'']
      else if c = CHR 0x09 then [CHR 0x5C, CHR ''t'']
      else if (of_char c :: nat) < 32
        then [CHR 0x5C, CHR ''u'', CHR ''0'', CHR ''0'',
              hex_digit (of_char c div 16), hex_digit (of_char c mod 16)]
      else [c])"

definition json_quote :: "string \<Rightarrow> string" where
  "json_quote s = [CHR 0x22] @ concat (map json_escape s) @ [CHR 0x22]"

fun intercalate :: "'a list \<Rightarrow> 'a list list \<Rightarrow> 'a list" where
  "intercalate sep [] = []"
| "intercalate sep [x] = x"
| "intercalate sep (x # y # ys) = x @ sep @ intercalate sep (y # ys)"

text \<open>
  \<^verbatim>\<open>JSON.stringify(v)\<close> with no replacer and no indentation. It returns
  \<^verbatim>\<open>undefined\<close> (here \<open>None\<close>) for \<^verbatim>\<open>undefined\<close>; inside an array
  \<^verbatim>\<open>undefined\<close> is written \<^verbatim>\<open>null\<close>, inside an object the property is left out.
\<close>

fun json_stringify :: "jsval \<Rightarrow> string option" where
  "json_stringify JUndefined = None"
| "json_stringify JNull = Some ''null''"
| "json_stringify (JBool b) = Some (if b then ''true'' else ''false'')"
| "json_stringify (JNum n) = Some (String_int n)"
| "json_stringify (JStr s) = Some (json_quote s)"
| "json_stringify (JArr xs) =
     Some (''['' @ intercalate '',''
        (map (\<lambda>x. case json_stringify x of None \<Rightarrow> ''null'' | Some s \<Rightarrow> s) xs) @ '']'')"
| "json_stringify (JObj fs) =
     Some (''{'' @ intercalate '',''
        (concat (map (\<lambda>(k, v). case json_stringify v of
                                   None \<Rightarrow> []
                                 | Some s \<Rightarrow> [json_quote k @ '':'' @ s]) fs)) @ ''}'')"

text \<open>String concatenation \<^verbatim>\<open>prefix + JSON.stringify(v)\<close>.\<close>

definition concat_stringified :: "string \<Rightarrow> jsval \<Rightarrow> string" where
  "concat_stringified prefix v =
     prefix @ (case json_stringify v of None \<Rightarrow> ''undefined'' | Some s \<Rightarrow> s)"

section \<open>Binary objects\<close>

text \<open>A \<^verbatim>\<open>Blob\<close>: its bytes and its MIME type tag.\<close>

record blob =
  bytes :: "8 word list"
  mime :: string

definition blob_size :: "blob \<Rightarrow> nat" where
  "blob_size b = length (bytes b)"

text \<open>\<^verbatim>\<open>new Blob(parts, {type: t})\<close>: the parts' bytes one after the other, in order.\<close>

definition new_Blob :: "blob list \<Rightarrow> string \<Rightarrow> blob" where
  "new_Blob parts t = \<lparr>bytes = concat (map bytes parts), mime = t\<rparr>"

section \<open>Recorder: the capture state machine\<close>

text \<open>
  The platform, as far as the Recorder asks it: what
  \<^verbatim>\<open>navigator.mediaDevices.getUserMedia({audio: true})\<close> answers (a stream, a
  rejection with the error's text, or no such capability at all), and whether
  \<^verbatim>\<open>new MediaRecorder(stream, {mimeType: 'audio/webm'})\<close> succeeds.
\<close>

datatype acquire = Stream nat | Rejected string | NoMediaDevices

record platform =
  getUserMedia :: acquire
  mediaRecorderOk :: bool

text \<open>\<^verbatim>\<open>MediaRecorder.state\<close>.\<close>

datatype RecordingState = Inactive | Recording | Paused

text \<open>
  What the Recorder does to the outside: the permission request, the five collaborator
  callbacks, \<^verbatim>\<open>console.error\<close>, and a promise rejection nobody handles. The
  controller passes all five callbacks, so the guards \<^verbatim>\<open>this.onX && ...\<close> of the
  Recorder always pass. Each operation below is the call together with the settlement of
  its promise chain and the platform events it causes; a call that has to wait for the
  permission request returns before that, which the sessions further below take apart.
\<close>

datatype rec_effect =
    GetUserMedia
  | OnError string
  | OnStarted
  | OnStopped blob
  | OnTogglePaused bool
  | OnUpdateTimer string
  | ConsoleError js_error
  | UnhandledRejection js_error

text \<open>
  The Recorder's fields. \<open>mediaStream\<close> and \<open>mediaRecorder\<close> are \<open>None\<close> while they
  are \<^verbatim>\<open>null\<close>; the MediaRecorder object is represented by its state.
\<close>

record Recorder =
  mediaStream :: "nat option"
  mediaRecorder :: "RecordingState option"
  timer :: nat
  recordedChunks :: "blob list"
  trace :: "rec_effect list"

definition timeslice :: nat where
  "timeslice = 1000"

definition Recorder_new :: Recorder where
  "Recorder_new =
     \<lparr>mediaStream = None, mediaRecorder = None, timer = 0, recordedChunks = [], trace = []\<rparr>"

definition emit :: "rec_effect list \<Rightarrow> Recorder \<Rightarrow> Recorder" where
  "emit es r = r\<lparr>trace := trace r @ es\<rparr>"

subsection \<open>The timer\<close>

text \<open>\<^verbatim>\<open>String(num).padStart(places, '0')\<close>.\<close>

definition zeroPad :: "nat \<Rightarrow> nat \<Rightarrow> string" where
  "zeroPad num places =
     replicate (places - length (String_nat num)) CHR ''0'' @ String_nat num"

text \<open>
  The text \<^verbatim>\<open>addTimer\<close> computes from \<^verbatim>\<open>this.timer\<close>. The timer only ever grows by
  \<open>0\<close> or by \<open>timeslice\<close>, so it is a whole number of seconds (lemma
  \<open>run_timer_whole_seconds\<close> below) and the division by 1000 is exact, in JavaScript's
  numbers as here.
\<close>

definition timer_text :: "nat \<Rightarrow> string" where
  "timer_text t =
     (let allSeconds = t div 1000;
          minutes = allSeconds div 60;
          seconds = allSeconds mod 60
      in zeroPad minutes 2 @ '':'' @ zeroPad seconds 2)"

definition addTimer :: "nat \<Rightarrow> Recorder \<Rightarrow> Recorder" where
  "addTimer ts r =
     (let r1 = r\<lparr>timer := timer r + ts\<rparr>
      in emit [OnUpdateTimer (timer_text (timer r1))] r1)"

subsection \<open>Acquiring the stream and the recorder\<close>

text \<open>
  Both functions return a promise; the model returns how it settles (\<open>Inl\<close>: rejected)
  together with the Recorder as it is by then.
\<close>

definition getMediaStream :: "platform \<Rightarrow> Recorder \<Rightarrow> (js_error + nat) \<times> Recorder" where
  "getMediaStream p r =
     (case mediaStream r of
        Some st \<Rightarrow> (Inr st, r)
      | None \<Rightarrow>
          (case getUserMedia p of
             Stream st \<Rightarrow> (Inr st, emit [GetUserMedia] (r\<lparr>mediaStream := Some st\<rparr>))
           | Rejected err \<Rightarrow>
               (let msg = ''The following getUserMedia error occurred: '' @ err
                in (Inl (Error msg), emit [GetUserMedia, OnError msg] r))
           | NoMediaDevices \<Rightarrow>
               (let msg = ''Not supported on your browser!''
                in (Inl (Error msg), emit [OnError msg] r))))"

definition getMediaRecorder :: "platform \<Rightarrow> Recorder \<Rightarrow> (js_error + unit) \<times> Recorder" where
  "getMediaRecorder p r =
     (case mediaRecorder r of
        Some m \<Rightarrow> (Inr (), r)
      | None \<Rightarrow>
          (case getMediaStream p r of
             (Inl e, r1) \<Rightarrow> (Inl e, r1)
           | (Inr st, r1) \<Rightarrow>
               if mediaRecorderOk p then (Inr (), r1\<lparr>mediaRecorder := Some Inactive\<rparr>)
               else (Inl NotSupportedError, r1)))"

subsection \<open>The MediaRecorder's events and methods\<close>

text \<open>The \<^verbatim>\<open>dataavailable\<close> listener.\<close>

definition onDataAvailable :: "blob \<Rightarrow> Recorder \<Rightarrow> Recorder" where
  "onDataAvailable d r =
     addTimer timeslice
       (if blob_size d > 0 then r\<lparr>recordedChunks := recordedChunks r @ [d]\<rparr> else r)"

text \<open>The \<^verbatim>\<open>stop\<close> listener.\<close>

definition onStop :: "Recorder \<Rightarrow> Recorder" where
  "onStop r = emit [OnStopped (new_Blob (recordedChunks r) ''audio/ogg; codecs=opus'')] r"

text \<open>
  The platform's methods, after the MediaStream Recording specification.
  \<^verbatim>\<open>start(timeslice)\<close> throws an InvalidStateError unless the recorder is inactive,
  otherwise the state becomes \<^verbatim>\<open>recording\<close> and the \<^verbatim>\<open>start\<close> event fires, whose
  listener is \<^verbatim>\<open>onStarted\<close>.
\<close>

definition MediaRecorder_start :: "Recorder \<Rightarrow> js_error + Recorder" where
  "MediaRecorder_start r =
     (if mediaRecorder r = Some Inactive
      then Inr (emit [OnStarted] (r\<lparr>mediaRecorder := Some Recording\<rparr>))
      else Inl InvalidStateError)"

text \<open>
  \<^verbatim>\<open>stop()\<close> does nothing on an inactive recorder; otherwise the state becomes
  \<^verbatim>\<open>inactive\<close>, a last \<^verbatim>\<open>dataavailable\<close> event delivers the data gathered since
  the previous one (\<open>final\<close>, possibly empty), and then the \<^verbatim>\<open>stop\<close> event fires.
\<close>

definition MediaRecorder_stop :: "blob \<Rightarrow> Recorder \<Rightarrow> Recorder" where
  "MediaRecorder_stop final r =
     (if mediaRecorder r = Some Inactive \<or> mediaRecorder r = None then r
      else onStop (onDataAvailable final (r\<lparr>mediaRecorder := Some Inactive\<rparr>)))"

subsection \<open>The Recorder's operations\<close>

definition startRecording :: "platform \<Rightarrow> Recorder \<Rightarrow> Recorder" where
  "startRecording p r =
     (case getMediaRecorder p r of
        (Inl e, r1) \<Rightarrow> emit [ConsoleError e] r1
      | (Inr u, r1) \<Rightarrow>
          (let r2 = addTimer 0 (r1\<lparr>timer := 0\<rparr>);
               r3 = r2\<lparr>recordedChunks := []\<rparr>
           in case MediaRecorder_start r3 of
                Inr r4 \<Rightarrow> r4
              | Inl e \<Rightarrow> emit [ConsoleError e] r3))"

definition togglePauseRecording :: "platform \<Rightarrow> Recorder \<Rightarrow> Recorder" where
  "togglePauseRecording p r =
     (case getMediaRecorder p r of
        (Inl e, r1) \<Rightarrow> emit [UnhandledRejection e] r1
      | (Inr u, r1) \<Rightarrow>
          if mediaRecorder r1 = Some Paused
          then emit [OnTogglePaused False] (r1\<lparr>mediaRecorder := Some Recording\<rparr>)
          else if mediaRecorder r1 \<noteq> Some Inactive
          then emit [OnTogglePaused True] (r1\<lparr>mediaRecorder := Some Paused\<rparr>)
          else r1)"

definition stopRecording :: "platform \<Rightarrow> blob \<Rightarrow> Recorder \<Rightarrow> Recorder" where
  "stopRecording p final r =
     (case getMediaRecorder p r of
        (Inl e, r1) \<Rightarrow> emit [UnhandledRejection e] r1
      | (Inr u, r1) \<Rightarrow> MediaRecorder_stop final r1)"

definition toggleRecording :: "platform \<Rightarrow> blob \<Rightarrow> Recorder \<Rightarrow> Recorder" where
  "toggleRecording p final r =
     (case getMediaRecorder p r of
        (Inl e, r1) \<Rightarrow> emit [UnhandledRejection e] r1
      | (Inr u, r1) \<Rightarrow>
          if mediaRecorder r1 = Some Inactive then startRecording p r1
          else stopRecording p final r1)"

subsection \<open>Runs\<close>

text \<open>
  What can happen to a Recorder: a click on the record button, a click on the pause
  button, a direct call of start or stop, and a \<^verbatim>\<open>dataavailable\<close> tick of the
  platform. \<open>Toggle\<close> and \<open>Stop\<close> carry the data the platform delivers if the call
  stops the recorder.
\<close>

datatype rec_input =
    Toggle blob
  | TogglePause
  | Start
  | Stop blob
  | Tick blob

fun step :: "platform \<Rightarrow> rec_input \<Rightarrow> Recorder \<Rightarrow> Recorder" where
  "step p (Toggle final) r = toggleRecording p final r"
| "step p TogglePause r = togglePauseRecording p r"
| "step p Start r = startRecording p r"
| "step p (Stop final) r = stopRecording p final r"
| "step p (Tick d) r = onDataAvailable d r"

text \<open>
  A run in which every call has settled before the next input arrives. The calls
  themselves return at once; runs in which they overlap are the sessions further below.
\<close>

definition run :: "platform \<Rightarrow> rec_input list \<Rightarrow> Recorder \<Rightarrow> Recorder" where
  "run p inputs r = fold (step p) inputs r"

text \<open>The collaborator callbacks in a trace, and the blobs handed to \<^verbatim>\<open>onStopped\<close>.\<close>

fun is_callback :: "rec_effect \<Rightarrow> bool" where
  "is_callback GetUserMedia = False"
| "is_callback (ConsoleError e) = False"
| "is_callback (UnhandledRejection e) = False"
| "is_callback c = True"

definition callbacks :: "rec_effect list \<Rightarrow> rec_effect list" where
  "callbacks es = filter is_callback es"

definition started_count :: "rec_effect list \<Rightarrow> nat" where
  "started_count es = length (filter (\<lambda>e. e = OnStarted) es)"

definition stopped_blobs :: "rec_effect list \<Rightarrow> blob list" where
  "stopped_blobs es = concat (map (\<lambda>e. case e of OnStopped b \<Rightarrow> [b] | _ \<Rightarrow> []) es)"

definition pause_notices :: "rec_effect list \<Rightarrow> bool list" where
  "pause_notices es = concat (map (\<lambda>e. case e of OnTogglePaused b \<Rightarrow> [b] | _ \<Rightarrow> []) es)"

text \<open>The recorder is capturing or paused.\<close>

definition active :: "Recorder \<Rightarrow> bool" where
  "active r = (mediaRecorder r = Some Recording \<or> mediaRecorder r = Some Paused)"

text \<open>The inputs that can arrive between a start and the stop that ends the session.\<close>

fun is_tick_or_pause :: "rec_input \<Rightarrow> bool" where
  "is_tick_or_pause (Tick d) = True"
| "is_tick_or_pause TogglePause = True"
| "is_tick_or_pause i = False"

subsection \<open>The timer text as the specification words it\<close>

text \<open>
  Zero-padded minutes, a colon, zero-padded seconds; minutes are
  \<open>floor (elapsedSeconds / 60)\<close>, seconds are \<open>elapsedSeconds mod 60\<close>.
\<close>

definition spec_pad2 :: "nat \<Rightarrow> string" where
  "spec_pad2 n = (if n < 10 then ''0'' @ String_nat n else String_nat n)"

definition spec_timer_text :: "nat \<Rightarrow> string" where
  "spec_timer_text t = spec_pad2 ((t div 1000) div 60) @ '':'' @ spec_pad2 ((t div 1000) mod 60)"

subsection \<open>Example recorders and platforms\<close>

definition stopped_example :: Recorder where
  "stopped_example =
     \<lparr>mediaStream = Some 7, mediaRecorder = Some Inactive, timer = 5000,
      recordedChunks = [\<lparr>bytes = [1, 2], mime = ''audio/webm''\<rparr>], trace = []\<rparr>"

definition recording_example :: Recorder where
  "recording_example =
     \<lparr>mediaStream = Some 7, mediaRecorder = Some Recording, timer = 2000,
      recordedChunks =
        [\<lparr>bytes = [1, 2], mime = ''audio/webm''\<rparr>, \<lparr>bytes = [3], mime = ''audio/webm''\<rparr>],
      trace = []\<rparr>"

definition granting :: platform where
  "granting = \<lparr>getUserMedia = Stream 7, mediaRecorderOk = True\<rparr>"

definition refusing :: platform where
  "refusing =
     \<lparr>getUserMedia = Rejected ''NotAllowedError: Permission denied'', mediaRecorderOk = True\<rparr>"

definition incapable :: platform where
  "incapable = \<lparr>getUserMedia = NoMediaDevices, mediaRecorderOk = True\<rparr>"

definition no_data :: blob where
  "no_data = \<lparr>bytes = [], mime = []\<rparr>"


subsection \<open>Sessions: calls that return before they settle\<close>

text \<open>
  A call whose \<^verbatim>\<open>getMediaRecorder()\<close> finds neither a recorder nor a stream, on a platform
  that can capture, asks \<^verbatim>\<open>getUserMedia\<close> and returns; its \<^verbatim>\<open>then\<close> callback waits for
  the answer. Every other call settles within its own turn of the event loop. A session
  is the Recorder together with the calls that wait for an answer, oldest first, and the
  MediaRecorder objects that \<^verbatim>\<open>this.mediaRecorder\<close> no longer refers to, because a
  later answer constructed another one; those go on as they are.
\<close>

datatype answer = Granted nat | Refused string

datatype event = Input rec_input | Settle answer

record Session =
  recorder :: Recorder
  replaced :: "RecordingState list"
  pending :: "rec_input list"

definition Session_new :: Session where
  "Session_new = \<lparr>recorder = Recorder_new, replaced = [], pending = []\<rparr>"

definition needs_request :: "platform \<Rightarrow> Recorder \<Rightarrow> bool" where
  "needs_request p r =
     (mediaRecorder r = None \<and> mediaStream r = None \<and> getUserMedia p \<noteq> NoMediaDevices)"

text \<open>
  Where a rejected \<^verbatim>\<open>getMediaRecorder()\<close> ends: \<^verbatim>\<open>startRecording\<close> logs it, the other
  three operations have no \<^verbatim>\<open>catch\<close>.
\<close>

fun rejection :: "rec_input \<Rightarrow> js_error \<Rightarrow> rec_effect" where
  "rejection Start e = ConsoleError e"
| "rejection i e = UnhandledRejection e"

text \<open>
  The answer to the request of the waiting call \<open>i\<close>. A stream is stored in
  \<^verbatim>\<open>this.mediaStream\<close>, a new MediaRecorder is constructed and stored in
  \<^verbatim>\<open>this.mediaRecorder\<close> whatever that held, and the call goes on with the new, inactive
  recorder. A refusal calls \<^verbatim>\<open>onError\<close> and rejects.
\<close>

definition settle :: "platform \<Rightarrow> answer \<Rightarrow> rec_input \<Rightarrow> Session \<Rightarrow> Session" where
  "settle p a i s =
     (case a of
        Granted st \<Rightarrow>
          (let r = (recorder s)\<lparr>mediaStream := Some st\<rparr>
           in if mediaRecorderOk p
              then s\<lparr>recorder := step p i (r\<lparr>mediaRecorder := Some Inactive\<rparr>),
                     replaced := replaced s @ (case mediaRecorder r of None \<Rightarrow> [] | Some m \<Rightarrow> [m])\<rparr>
              else s\<lparr>recorder := emit [rejection i NotSupportedError] r\<rparr>)
      | Refused err \<Rightarrow>
          (let msg = ''The following getUserMedia error occurred: '' @ err
           in s\<lparr>recorder := emit [OnError msg, rejection i (Error msg)] (recorder s)\<rparr>))"

text \<open>
  One event of a session: a tick, a call, or the answer to the oldest request (requests
  are answered in the order they were made).
\<close>

fun async_step :: "platform \<Rightarrow> event \<Rightarrow> Session \<Rightarrow> Session" where
  "async_step p (Input (Tick d)) s = s\<lparr>recorder := onDataAvailable d (recorder s)\<rparr>"
| "async_step p (Input i) s =
     (if needs_request p (recorder s)
      then s\<lparr>recorder := emit [GetUserMedia] (recorder s), pending := pending s @ [i]\<rparr>
      else s\<lparr>recorder := step p i (recorder s)\<rparr>)"
| "async_step p (Settle a) s =
     (case pending s of
        [] \<Rightarrow> s
      | i # rest \<Rightarrow> settle p a i (s\<lparr>pending := rest\<rparr>))"

definition async_run :: "platform \<Rightarrow> event list \<Rightarrow> Session \<Rightarrow> Session" where
  "async_run p evs s = fold (async_step p) evs s"

text \<open>A call followed at once by the platform's answer to the request it makes, if it makes one.\<close>

fun settlement :: "acquire \<Rightarrow> event list" where
  "settlement (Stream st) = [Settle (Granted st)]"
| "settlement (Rejected err) = [Settle (Refused err)]"
| "settlement NoMediaDevices = []"

definition settled_call :: "platform \<Rightarrow> rec_input \<Rightarrow> Recorder \<Rightarrow> event list" where
  "settled_call p i r = Input i # (if needs_request p r then settlement (getUserMedia p) else [])"

text \<open>
  Example sessions: two clicks on the record button while the first permission request
  is still open; two clicks, each refused; and two clicks with the first one settled and
  a tick and two pause clicks in between.
\<close>

definition overlapping_toggles :: "event list" where
  "overlapping_toggles =
     [Input (Toggle no_data), Input (Toggle no_data), Settle (Granted 7), Settle (Granted 8)]"

definition refused_toggles :: "event list" where
  "refused_toggles =
     [Input (Toggle no_data), Settle (Refused ''NotAllowedError: Permission denied''),
      Input (Toggle no_data), Settle (Refused ''NotAllowedError: Permission denied'')]"

definition settled_toggles :: "event list" where
  "settled_toggles =
     [Input (Toggle no_data), Settle (Granted 7),
      Input (Tick \<lparr>bytes = [8], mime = ''audio/webm''\<rparr>), Input TogglePause, Input TogglePause,
      Input (Toggle \<lparr>bytes = [9], mime = ''audio/webm''\<rparr>)]"


section \<open>Ui: the presenter\<close>

text \<open>
  The DOM nodes the Ui holds, as far as the operations below touch them: the class
  lists of the wrapper and of the record component, the timer's text, and the
  \<^verbatim>\<open>src\<close> of every audio element appended to the audio container.
\<close>

record Ui =
  wrapper :: "string list"
  recordComponent :: "string list"
  timerComponent :: string
  audioContainer :: "jsval list"

text \<open>\<^verbatim>\<open>classList.add\<close>, \<^verbatim>\<open>classList.remove\<close> and \<^verbatim>\<open>classList.toggle(c, force)\<close>.\<close>

definition classList_add :: "string \<Rightarrow> string list \<Rightarrow> string list" where
  "classList_add c cs = (if c \<in> set cs then cs else cs @ [c])"

definition classList_remove :: "string \<Rightarrow> string list \<Rightarrow> string list" where
  "classList_remove c cs = removeAll c cs"

definition classList_toggle :: "string \<Rightarrow> bool \<Rightarrow> string list \<Rightarrow> string list" where
  "classList_toggle c force cs = (if force then classList_add c cs else classList_remove c cs)"

definition CSS_wrapper :: string where
  "CSS_wrapper = ''voice-tool''"

definition CSS_recordComponent :: string where
  "CSS_recordComponent = ''voice-tool__record-component''"

definition status_EMPTY :: string where "status_EMPTY = ''empty''"
definition status_UPLOADING :: string where "status_UPLOADING = ''loading''"
definition status_FILLED :: string where "status_FILLED = ''filled''"

definition Ui_status :: "string list" where
  "Ui_status = [status_EMPTY, status_UPLOADING, status_FILLED]"

definition status_class :: "string \<Rightarrow> string" where
  "status_class s = CSS_wrapper @ ''--'' @ s"

text \<open>The constructor: \<open>baseClass\<close> is the host's \<^verbatim>\<open>api.styles.block\<close>.\<close>

definition Ui_new :: "string \<Rightarrow> Ui" where
  "Ui_new baseClass =
     \<lparr>wrapper = classList_add CSS_wrapper (classList_add baseClass []),
      recordComponent = classList_add CSS_recordComponent [],
      timerComponent = ''00:00'',
      audioContainer = []\<rparr>"

definition toggleStatus :: "string \<Rightarrow> Ui \<Rightarrow> Ui" where
  "toggleStatus status u =
     u\<lparr>wrapper := fold (\<lambda>statusType. classList_toggle (status_class statusType) (status = statusType))
                       Ui_status (wrapper u)\<rparr>"

definition Ui_render :: "jsval \<Rightarrow> Ui \<Rightarrow> js_error + Ui" where
  "Ui_render toolData u =
     (case js_get toolData ''file'' of
        Inl e \<Rightarrow> Inl e
      | Inr f \<Rightarrow>
          if \<not> truthy f \<or> object_keys_length f = 0
          then Inr (toggleStatus status_EMPTY u)
          else Inr (toggleStatus status_UPLOADING u))"

definition updateTimer :: "string \<Rightarrow> Ui \<Rightarrow> Ui" where
  "updateTimer v u = u\<lparr>timerComponent := v\<rparr>"

definition showPreloader :: "Ui \<Rightarrow> Ui" where
  "showPreloader u = toggleStatus status_UPLOADING u"

definition hidePreloader :: "Ui \<Rightarrow> Ui" where
  "hidePreloader u = toggleStatus status_EMPTY u"

text \<open>
  \<^verbatim>\<open>fillVoice(url)\<close> creates an audio element with \<^verbatim>\<open>src = url\<close>, registers a
  \<^verbatim>\<open>loadeddata\<close> listener on it and appends it to the audio container. The status
  is not touched here: the listener, \<open>audio_loadeddata\<close>, sets it when the browser
  has loaded the audio.
\<close>

definition fillVoice :: "jsval \<Rightarrow> Ui \<Rightarrow> Ui" where
  "fillVoice url u = u\<lparr>audioContainer := audioContainer u @ [url]\<rparr>"

definition audio_loadeddata :: "Ui \<Rightarrow> Ui" where
  "audio_loadeddata u = toggleStatus status_FILLED u"

definition setActive :: "bool \<Rightarrow> Ui \<Rightarrow> Ui" where
  "setActive isActive u =
     (if isActive then u\<lparr>recordComponent := classList_add ''active'' (recordComponent u)\<rparr>
      else u\<lparr>recordComponent := classList_remove ''active'' (recordComponent u)\<rparr>)"

definition togglePaused :: "bool \<Rightarrow> Ui \<Rightarrow> Ui" where
  "togglePaused isPaused u =
     (if isPaused then u\<lparr>recordComponent := classList_add ''paused'' (recordComponent u)\<rparr>
      else u\<lparr>recordComponent := classList_remove ''paused'' (recordComponent u)\<rparr>)"

text \<open>The statuses whose class the wrapper carries; the widget is in state \<open>s\<close> when this is \<open>[s]\<close>.\<close>

definition shown_status :: "Ui \<Rightarrow> string list" where
  "shown_status u = filter (\<lambda>s. status_class s \<in> set (wrapper u)) Ui_status"

section \<open>VoiceRecord: the controller\<close>

text \<open>
  What the controller does to its collaborators is kept as a trace: the console, the
  host's notifier and the three operations of the Uploader.
\<close>

datatype uploader_call =
    UploadAudioBlob blob
  | UploadByFile blob
  | UploadByUrl string

datatype tool_effect =
    ConsoleLog string string
  | NotifierShow string string
  | UploaderCall uploader_call

text \<open>
  The controller's state: its Ui, \<^verbatim>\<open>this._data\<close> (field \<open>data_priv\<close>) and the trace.
  \<open>i18n_t\<close> is the host's translation function \<^verbatim>\<open>api.i18n.t\<close>.
\<close>

record VoiceRecord =
  ui :: Ui
  data_priv :: "(string \<times> jsval) list"
  i18n_t :: "string \<Rightarrow> string"
  effects :: "tool_effect list"

text \<open>The setter \<^verbatim>\<open>set audio(file)\<close>.\<close>

definition set_audio :: "jsval \<Rightarrow> VoiceRecord \<Rightarrow> VoiceRecord" where
  "set_audio f t =
     (let t1 = t\<lparr>data_priv := obj_set ''file'' (if truthy f then f else JObj []) (data_priv t)\<rparr>
      in if truthy f
         then (case js_get f ''url'' of
                 Inr url \<Rightarrow> if truthy url then t1\<lparr>ui := fillVoice url (ui t1)\<rparr> else t1
               | Inl e \<Rightarrow> t1)
         else t1)"

text \<open>The setter \<^verbatim>\<open>set data(data)\<close> and the getter \<^verbatim>\<open>get data()\<close>.\<close>

definition set_data :: "jsval \<Rightarrow> VoiceRecord \<Rightarrow> js_error + VoiceRecord" where
  "set_data d t = (case js_get d ''file'' of Inl e \<Rightarrow> Inl e | Inr f \<Rightarrow> Inr (set_audio f t))"

definition get_data :: "VoiceRecord \<Rightarrow> jsval" where
  "get_data t = JObj (data_priv t)"

text \<open>
  The constructor, from the host's \<^verbatim>\<open>api\<close> (its block class and its translation
  function) and the previously saved \<^verbatim>\<open>data\<close>.
\<close>

definition VoiceRecord_new :: "string \<Rightarrow> (string \<Rightarrow> string) \<Rightarrow> jsval \<Rightarrow> js_error + VoiceRecord" where
  "VoiceRecord_new baseClass tr d =
     set_data d \<lparr>ui = Ui_new baseClass, data_priv = [], i18n_t = tr, effects = []\<rparr>"

definition render :: "VoiceRecord \<Rightarrow> js_error + VoiceRecord" where
  "render t = (case Ui_render (get_data t) (ui t) of Inl e \<Rightarrow> Inl e | Inr u \<Rightarrow> Inr (t\<lparr>ui := u\<rparr>))"

definition save :: "VoiceRecord \<Rightarrow> jsval" where
  "save t = get_data t"

definition upload_failed_message :: string where
  "upload_failed_message =
     ''Couldn'' @ [CHR 0xE2, CHR 0x80, CHR 0x99] @ ''t upload audio. Please try another.''"

definition uploadingFailed :: "string \<Rightarrow> VoiceRecord \<Rightarrow> VoiceRecord" where
  "uploadingFailed errorText t =
     t\<lparr>effects := effects t @
          [ConsoleLog ''Voice Tool: uploading failed because of'' errorText,
           NotifierShow (i18n_t t upload_failed_message) ''error''],
       ui := hidePreloader (setActive False (togglePaused False (ui t)))\<rparr>"

definition onUpload :: "jsval \<Rightarrow> VoiceRecord \<Rightarrow> js_error + VoiceRecord" where
  "onUpload response t =
     (let failed = uploadingFailed (concat_stringified ''incorrect response: '' response) t
      in case js_get response ''success'' of
           Inl e \<Rightarrow> Inl e
         | Inr success \<Rightarrow>
             if \<not> truthy success then Inr failed
             else (case js_get response ''file'' of
                     Inl e \<Rightarrow> Inl e
                   | Inr f \<Rightarrow> if truthy f then Inr (set_audio f t) else Inr failed))"

text \<open>The three places where the controller hands work to the Uploader.\<close>

definition onRecorderStopped :: "blob \<Rightarrow> VoiceRecord \<Rightarrow> VoiceRecord" where
  "onRecorderStopped b t = t\<lparr>effects := effects t @ [UploaderCall (UploadAudioBlob b)]\<rparr>"

definition uploadFile :: "blob \<Rightarrow> VoiceRecord \<Rightarrow> VoiceRecord" where
  "uploadFile f t = t\<lparr>effects := effects t @ [UploaderCall (UploadByFile f)]\<rparr>"

definition uploadUrl :: "string \<Rightarrow> VoiceRecord \<Rightarrow> VoiceRecord" where
  "uploadUrl url t =
     t\<lparr>ui := showPreloader (ui t), effects := effects t @ [UploaderCall (UploadByUrl url)]\<rparr>"

text \<open>The handlers the controller passes to the Recorder as its callbacks.\<close>

definition onRecorderStarted :: "VoiceRecord \<Rightarrow> VoiceRecord" where
  "onRecorderStarted t = t\<lparr>ui := setActive True (ui t)\<rparr>"

definition onRecorderUpdateTimer :: "string \<Rightarrow> VoiceRecord \<Rightarrow> VoiceRecord" where
  "onRecorderUpdateTimer v t = t\<lparr>ui := updateTimer v (ui t)\<rparr>"

definition onRecorderTogglePaused :: "bool \<Rightarrow> VoiceRecord \<Rightarrow> VoiceRecord" where
  "onRecorderTogglePaused v t = t\<lparr>ui := togglePaused v (ui t)\<rparr>"

definition record_failed_message :: string where
  "record_failed_message =
     ''Couldn'' @ [CHR 0xE2, CHR 0x80, CHR 0x99] @ ''t record. please give permission.''"

definition onRecorderFailed :: "string \<Rightarrow> VoiceRecord \<Rightarrow> VoiceRecord" where
  "onRecorderFailed errorText t =
     t\<lparr>effects := effects t @
          [ConsoleLog ''Voice Tool: recording failed because of'' errorText,
           NotifierShow (i18n_t t record_failed_message) ''error''],
       ui := hidePreloader (setActive False (togglePaused False (ui t)))\<rparr>"

text \<open>
  The wiring of the constructor: each callback of the Recorder runs the controller's
  handler of the same name; the other effects of the Recorder do not reach the controller.
\<close>

fun deliver :: "rec_effect \<Rightarrow> VoiceRecord \<Rightarrow> VoiceRecord" where
  "deliver (OnError msg) t = onRecorderFailed msg t"
| "deliver OnStarted t = onRecorderStarted t"
| "deliver (OnTogglePaused v) t = onRecorderTogglePaused v t"
| "deliver (OnUpdateTimer v) t = onRecorderUpdateTimer v t"
| "deliver (OnStopped b) t = onRecorderStopped b t"
| "deliver e t = t"

text \<open>
  The host's loading sequence for a saved block: \<^verbatim>\<open>new VoiceRecord({data, api, ...})\<close>
  followed by \<^verbatim>\<open>render()\<close>.
\<close>

definition load_block :: "string \<Rightarrow> (string \<Rightarrow> string) \<Rightarrow> jsval \<Rightarrow> js_error + VoiceRecord" where
  "load_block baseClass tr d =
     (case VoiceRecord_new baseClass tr d of Inl e \<Rightarrow> Inl e | Inr t \<Rightarrow> render t)"

text \<open>The status the widget shows when that sequence has run.\<close>

definition status_after_load :: "string \<Rightarrow> (string \<Rightarrow> string) \<Rightarrow> jsval \<Rightarrow> js_error + string list" where
  "status_after_load baseClass tr d = map_sum id (\<lambda>t. shown_status (ui t)) (load_block baseClass tr d)"

definition uploader_calls :: "VoiceRecord \<Rightarrow> uploader_call list" where
  "uploader_calls t = concat (map (\<lambda>e. case e of UploaderCall c \<Rightarrow> [c] | _ \<Rightarrow> []) (effects t))"

text \<open>
  \<^verbatim>\<open>this._data\<close> starts as \<^verbatim>\<open>{}\<close> and only the audio setter writes to it, so
  once the constructor has run its only key is \<^verbatim>\<open>file\<close>.
\<close>

definition data_keys :: "VoiceRecord \<Rightarrow> string list" where
  "data_keys t = map fst (data_priv t)"

subsection \<open>Example controller state\<close>

definition empty_block :: VoiceRecord where
  "empty_block =
     \<lparr>ui = Ui_new ''cdx-block'', data_priv = [(''file'', JObj [])], i18n_t = id, effects = []\<rparr>"

section \<open>Properties of the timer\<close>

lemmas String_nat_eval = String_nat.simps digit_char_def

lemma length_String_nat_pos: "1 \<le> length (String_nat n)"
  by (subst String_nat.simps) simp

lemma length_String_nat_small: "n < 10 \<Longrightarrow> length (String_nat n) = 1"
  by (subst String_nat.simps) simp

lemma length_String_nat_large: "\<not> n < 10 \<Longrightarrow> 2 \<le> length (String_nat n)"
  using length_String_nat_pos [of "n div 10"]
  by (subst String_nat.simps) simp

lemma zeroPad_2: "zeroPad n 2 = spec_pad2 n"
proof (cases "n < 10")
  case True
  then show ?thesis
    by (simp add: zeroPad_def spec_pad2_def length_String_nat_small)
next
  case False
  then show ?thesis
    using length_String_nat_large [of n] by (simp add: zeroPad_def spec_pad2_def)
qed

lemma timer_text_zero: "timer_text 0 = ''00:00''"
  by (simp add: timer_text_def zeroPad_def String_nat_eval)

lemma trace_addTimer:
  "trace (addTimer ts r) = trace r @ [OnUpdateTimer (timer_text (timer r + ts))]"
  by (simp add: addTimer_def emit_def Let_def)

text \<open>
  Claim C7. For an elapsed time of \<open>k\<close> whole seconds (\<open>1000 * k\<close> milliseconds) the
  text the timer callback receives is the minutes \<open>k div 60\<close> padded to two digits, a
  colon, and the seconds \<open>k mod 60\<close> padded to two digits, which is the text the
  specification describes. 0 ms gives 00:00 and 65000 ms gives 01:05; there is no hours
  component, a full hour reads 60:00.
\<close>

theorem timer_text_format:
  "timer_text (1000 * k) = spec_pad2 (k div 60) @ '':'' @ spec_pad2 (k mod 60)
   \<and> timer_text (1000 * k) = spec_timer_text (1000 * k)
   \<and> timer_text 0 = ''00:00''
   \<and> timer_text 65000 = ''01:05''
   \<and> timer_text 3600000 = ''60:00''
   \<and> trace (addTimer ts r) = trace r @ [OnUpdateTimer (timer_text (timer r + ts))]"
proof -
  have gen: "timer_text (1000 * k) = spec_pad2 (k div 60) @ '':'' @ spec_pad2 (k mod 60)"
    by (simp add: timer_text_def zeroPad_2)
  have spec: "timer_text (1000 * k) = spec_timer_text (1000 * k)"
    by (simp add: timer_text_def zeroPad_2 spec_timer_text_def)
  have a: "timer_text 65000 = ''01:05''"
    by (simp add: timer_text_def zeroPad_def String_nat_eval)
  have h: "timer_text 3600000 = ''60:00''"
    by (simp add: timer_text_def zeroPad_def String_nat_eval)
  show ?thesis using gen spec timer_text_zero a h trace_addTimer by blast
qed

text \<open>
  Claim C10. A \<open>dataavailable\<close> tick appends its chunk exactly when the chunk's size is
  positive, and in either case advances the timer by one 1000 ms slice and reports the
  new time; the handles are not touched.
\<close>

theorem onDataAvailable_tick:
  "recordedChunks (onDataAvailable d r) =
      (if 0 < blob_size d then recordedChunks r @ [d] else recordedChunks r)
   \<and> timer (onDataAvailable d r) = timer r + 1000
   \<and> trace (onDataAvailable d r) = trace r @ [OnUpdateTimer (timer_text (timer r + 1000))]
   \<and> mediaRecorder (onDataAvailable d r) = mediaRecorder r
   \<and> mediaStream (onDataAvailable d r) = mediaStream r"
  by (simp add: onDataAvailable_def addTimer_def emit_def timeslice_def Let_def)

section \<open>Properties of the acquisition\<close>

lemma getMediaRecorder_cached:
  "mediaRecorder r = Some m \<Longrightarrow> getMediaRecorder p r = (Inr (), r)"
  by (simp add: getMediaRecorder_def)

lemma getMediaStream_frame:
  "timer (snd (getMediaStream p r)) = timer r
   \<and> recordedChunks (snd (getMediaStream p r)) = recordedChunks r
   \<and> mediaRecorder (snd (getMediaStream p r)) = mediaRecorder r"
  by (simp add: getMediaStream_def emit_def Let_def split: option.splits acquire.splits)

lemma getMediaRecorder_frame:
  "timer (snd (getMediaRecorder p r)) = timer r
   \<and> recordedChunks (snd (getMediaRecorder p r)) = recordedChunks r"
  using getMediaStream_frame [of p r]
  by (auto simp: getMediaRecorder_def split: option.splits prod.splits sum.splits)

lemma getMediaRecorder_resolved:
  assumes "fst (getMediaRecorder p r) = Inr ()"
  shows "mediaRecorder (snd (getMediaRecorder p r)) =
           (case mediaRecorder r of None \<Rightarrow> Some Inactive | Some m \<Rightarrow> Some m)"
    and "mediaRecorder r = None \<Longrightarrow> mediaStream (snd (getMediaRecorder p r)) \<noteq> None"
    and "callbacks (trace (snd (getMediaRecorder p r))) = callbacks (trace r)"
  using assms
  by (auto simp: getMediaRecorder_def getMediaStream_def emit_def callbacks_def Let_def
      split: option.splits prod.splits sum.splits acquire.splits if_splits)

lemma getMediaRecorder_counts:
  assumes "getMediaRecorder p r = (Inr (), r0)"
  shows "started_count (trace r0) = started_count (trace r)
       \<and> stopped_blobs (trace r0) = stopped_blobs (trace r)"
  using assms
  by (auto simp: getMediaRecorder_def getMediaStream_def emit_def started_count_def
      stopped_blobs_def Let_def split: option.splits acquire.splits if_splits)

lemma getMediaRecorder_rejected:
  assumes "mediaStream r = None" and "mediaRecorder r = None"
    and "getUserMedia p = Rejected err \<or> getUserMedia p = NoMediaDevices"
    and "msg = (if getUserMedia p = NoMediaDevices then ''Not supported on your browser!''
                else ''The following getUserMedia error occurred: '' @ err)"
  shows "getMediaRecorder p r =
           (Inl (Error msg),
            emit ((if getUserMedia p = NoMediaDevices then [] else [GetUserMedia]) @ [OnError msg]) r)"
  using assms
  by (auto simp: getMediaRecorder_def getMediaStream_def Let_def)

section \<open>Properties of start, stop and toggle\<close>

lemma startRecording_resolved:
  assumes "getMediaRecorder p r = (Inr (), r1)" and "mediaRecorder r1 = Some Inactive"
  shows "startRecording p r =
           r1\<lparr>timer := 0, recordedChunks := [], mediaRecorder := Some Recording,
              trace := trace r1 @ [OnUpdateTimer ''00:00'', OnStarted]\<rparr>"
  using assms
  by (simp add: startRecording_def addTimer_def emit_def MediaRecorder_start_def Let_def
      timer_text_zero)

text \<open>
  Claim C5. From any state in which the recorder is inactive (no recorder yet, or a
  stopped one), whatever timer value and chunks an earlier session left behind: when the
  recorder is available, \<open>startRecording\<close> sets the timer to 0 and the chunk list to
  empty, reports 00:00, and only then starts the capture, so the new session begins in
  state \<open>Recording\<close> with no elapsed time and no chunks.
\<close>

theorem startRecording_resets:
  assumes "fst (getMediaRecorder p r) = Inr ()"
    and "mediaRecorder r = None \<or> mediaRecorder r = Some Inactive"
  shows "timer (startRecording p r) = 0
       \<and> recordedChunks (startRecording p r) = []
       \<and> mediaRecorder (startRecording p r) = Some Recording
       \<and> callbacks (trace (startRecording p r)) =
           callbacks (trace r) @ [OnUpdateTimer ''00:00'', OnStarted]"
proof -
  obtain r1 where g: "getMediaRecorder p r = (Inr (), r1)"
    using assms(1) by (cases "getMediaRecorder p r") auto
  have m: "mediaRecorder r1 = Some Inactive"
    using getMediaRecorder_resolved(1) [OF assms(1)] assms(2) g by auto
  have c: "callbacks (trace r1) = callbacks (trace r)"
    using getMediaRecorder_resolved(3) [OF assms(1)] g by simp
  show ?thesis
    using c by (simp add: startRecording_resolved [OF g m] callbacks_def)
qed

theorem startRecording_resets_witness:
  "timer stopped_example = 5000
   \<and> recordedChunks stopped_example \<noteq> []
   \<and> timer (startRecording granting stopped_example) = 0
   \<and> recordedChunks (startRecording granting stopped_example) = []
   \<and> mediaRecorder (startRecording granting stopped_example) = Some Recording
   \<and> callbacks (trace (startRecording granting stopped_example)) = [OnUpdateTimer ''00:00'', OnStarted]
   \<and> timer (startRecording granting Recorder_new) = 0
   \<and> recordedChunks (startRecording granting Recorder_new) = []
   \<and> mediaRecorder (startRecording granting Recorder_new) = Some Recording"
  using startRecording_resets [of granting stopped_example]
    startRecording_resets [of granting Recorder_new]
  by (simp add: stopped_example_def granting_def Recorder_new_def getMediaRecorder_def
      getMediaStream_def emit_def callbacks_def)

lemma MediaRecorder_stop_active:
  assumes "mediaRecorder r = Some Recording \<or> mediaRecorder r = Some Paused"
  shows "MediaRecorder_stop final r =
           r\<lparr>mediaRecorder := Some Inactive,
             recordedChunks := recordedChunks r @ (if 0 < blob_size final then [final] else []),
             timer := timer r + 1000,
             trace := trace r @
               [OnUpdateTimer (timer_text (timer r + 1000)),
                OnStopped \<lparr>bytes = concat (map bytes (recordedChunks r)) @ bytes final,
                           mime = ''audio/ogg; codecs=opus''\<rparr>]\<rparr>"
  using assms
  by (auto simp: MediaRecorder_stop_def onStop_def onDataAvailable_def addTimer_def emit_def
      new_Blob_def blob_size_def timeslice_def Let_def)

lemma stopRecording_active:
  assumes "mediaRecorder r = Some Recording \<or> mediaRecorder r = Some Paused"
  shows "stopRecording p final r = MediaRecorder_stop final r"
  using assms by (auto simp: stopRecording_def getMediaRecorder_cached)

text \<open>
  Claim C6. Stopping a recorder that is recording or paused leaves it inactive and
  notifies \<open>onStopped\<close> exactly once, after the last tick, with one blob: the
  accumulated chunks followed by the data the platform delivers at the stop, byte after
  byte in that order, tagged \<open>audio/ogg; codecs=opus\<close>.
\<close>

theorem stopRecording_delivers_blob:
  assumes "mediaRecorder r = Some Recording \<or> mediaRecorder r = Some Paused"
  shows "mediaRecorder (stopRecording p final r) = Some Inactive
       \<and> recordedChunks (stopRecording p final r) =
           recordedChunks r @ (if 0 < blob_size final then [final] else [])
       \<and> trace (stopRecording p final r) = trace r @
           [OnUpdateTimer (timer_text (timer r + 1000)),
            OnStopped (new_Blob (recordedChunks (stopRecording p final r)) ''audio/ogg; codecs=opus'')]
       \<and> bytes (new_Blob (recordedChunks (stopRecording p final r)) ''audio/ogg; codecs=opus'') =
           concat (map bytes (recordedChunks r)) @ bytes final
       \<and> stopped_blobs (trace (stopRecording p final r)) = stopped_blobs (trace r) @
           [new_Blob (recordedChunks (stopRecording p final r)) ''audio/ogg; codecs=opus'']"
  using assms
  by (auto simp: stopRecording_active MediaRecorder_stop_active new_Blob_def blob_size_def
      stopped_blobs_def)

theorem stopRecording_delivers_blob_witness:
  "mediaRecorder (stopRecording granting \<lparr>bytes = [4, 5], mime = ''audio/webm''\<rparr> recording_example)
     = Some Inactive
   \<and> trace (stopRecording granting \<lparr>bytes = [4, 5], mime = ''audio/webm''\<rparr> recording_example) =
       [OnUpdateTimer ''00:03'',
        OnStopped \<lparr>bytes = [1, 2, 3, 4, 5], mime = ''audio/ogg; codecs=opus''\<rparr>]"
  using stopRecording_delivers_blob
    [of recording_example granting "\<lparr>bytes = [4, 5], mime = ''audio/webm''\<rparr>"]
  by (simp add: recording_example_def blob_size_def new_Blob_def timer_text_def zeroPad_def
      String_nat_eval)

lemma toggleRecording_inactive:
  assumes "fst (getMediaRecorder p r) = Inr ()"
    and "mediaRecorder r = None \<or> mediaRecorder r = Some Inactive"
  shows "toggleRecording p final r = startRecording p r"
proof -
  obtain r1 where g: "getMediaRecorder p r = (Inr (), r1)"
    using assms(1) by (cases "getMediaRecorder p r") auto
  have m: "mediaRecorder r1 = Some Inactive"
    using getMediaRecorder_resolved(1) [OF assms(1)] assms(2) g by auto
  have g1: "getMediaRecorder p r1 = (Inr (), r1)"
    using m by (simp add: getMediaRecorder_cached)
  show ?thesis
    by (simp add: toggleRecording_def g m startRecording_def g1)
qed

lemma toggleRecording_active:
  assumes "mediaRecorder r = Some Recording \<or> mediaRecorder r = Some Paused"
  shows "toggleRecording p final r = stopRecording p final r"
  using assms by (auto simp: toggleRecording_def getMediaRecorder_cached)

lemma step_between:
  assumes "active r" and "is_tick_or_pause i"
  shows "active (step p i r)
       \<and> started_count (trace (step p i r)) = started_count (trace r)
       \<and> stopped_blobs (trace (step p i r)) = stopped_blobs (trace r)"
  using assms
  by (cases i)
     (auto simp: active_def togglePauseRecording_def getMediaRecorder_cached onDataAvailable_def
       addTimer_def emit_def started_count_def stopped_blobs_def Let_def)

lemma run_between:
  assumes "active r" and "list_all is_tick_or_pause mid"
  shows "active (run p mid r)
       \<and> started_count (trace (run p mid r)) = started_count (trace r)
       \<and> stopped_blobs (trace (run p mid r)) = stopped_blobs (trace r)"
  using assms
proof (induction mid arbitrary: r)
  case Nil
  then show ?case by (simp add: run_def)
next
  case (Cons i mid)
  have s: "active (step p i r)
       \<and> started_count (trace (step p i r)) = started_count (trace r)
       \<and> stopped_blobs (trace (step p i r)) = stopped_blobs (trace r)"
    using Cons.prems by (intro step_between) simp_all
  have "list_all is_tick_or_pause mid" using Cons.prems by simp
  from Cons.IH [OF conjunct1 [OF s] this] s show ?case
    by (simp add: run_def)
qed

text \<open>
  When every call has settled before the next one, \<open>toggleRecording\<close> is
  \<open>startRecording\<close> on an inactive recorder and \<open>stopRecording\<close> on a recording or
  paused one, and two toggles with ticks and pause clicks in between make one session.
\<close>

lemma toggleRecording_settled:
  assumes "fst (getMediaRecorder p r) = Inr ()"
  shows "(mediaRecorder r = None \<or> mediaRecorder r = Some Inactive
            \<longrightarrow> toggleRecording p final r = startRecording p r)
       \<and> (mediaRecorder r = Some Recording \<or> mediaRecorder r = Some Paused
            \<longrightarrow> toggleRecording p final r = stopRecording p final r)
       \<and> (mediaRecorder r = None \<or> mediaRecorder r = Some Inactive
            \<longrightarrow> list_all is_tick_or_pause mid
            \<longrightarrow> mediaRecorder (toggleRecording p unused r) = Some Recording
              \<and> mediaRecorder (toggleRecording p final (run p mid (toggleRecording p unused r)))
                  = Some Inactive
              \<and> started_count (trace (toggleRecording p final (run p mid (toggleRecording p unused r))))
                  = started_count (trace r) + 1
              \<and> length (stopped_blobs (trace (toggleRecording p final (run p mid (toggleRecording p unused r)))))
                  = length (stopped_blobs (trace r)) + 1)"
proof (intro conjI impI)
  assume i: "mediaRecorder r = None \<or> mediaRecorder r = Some Inactive"
  show "toggleRecording p final r = startRecording p r"
    by (rule toggleRecording_inactive [OF assms i])
next
  assume "mediaRecorder r = Some Recording \<or> mediaRecorder r = Some Paused"
  then show "toggleRecording p final r = stopRecording p final r"
    by (rule toggleRecording_active)
next
  assume i: "mediaRecorder r = None \<or> mediaRecorder r = Some Inactive"
    and m: "list_all is_tick_or_pause mid"
  let ?r1 = "toggleRecording p unused r"
  let ?r2 = "run p mid ?r1"
  let ?r3 = "toggleRecording p final ?r2"
  have e1: "?r1 = startRecording p r"
    by (rule toggleRecording_inactive [OF assms i])
  obtain r0 where g: "getMediaRecorder p r = (Inr (), r0)"
    using assms by (cases "getMediaRecorder p r") auto
  have m0: "mediaRecorder r0 = Some Inactive"
    using getMediaRecorder_resolved(1) [OF assms] i g by auto
  show s1: "mediaRecorder ?r1 = Some Recording"
    by (simp add: e1 startRecording_resolved [OF g m0])
  then have a1: "active ?r1"
    by (simp add: active_def)
  have c1: "started_count (trace ?r1) = started_count (trace r) + 1
          \<and> stopped_blobs (trace ?r1) = stopped_blobs (trace r)"
    using getMediaRecorder_counts [OF g]
    by (simp add: e1 startRecording_resolved [OF g m0] started_count_def stopped_blobs_def)
  have b: "active ?r2
         \<and> started_count (trace ?r2) = started_count (trace ?r1)
         \<and> stopped_blobs (trace ?r2) = stopped_blobs (trace ?r1)"
    by (rule run_between [OF a1 m])
  then have a2: "mediaRecorder ?r2 = Some Recording \<or> mediaRecorder ?r2 = Some Paused"
    by (simp add: active_def)
  have e3: "?r3 = MediaRecorder_stop final ?r2"
    by (simp add: toggleRecording_active [OF a2] stopRecording_active [OF a2])
  show "mediaRecorder ?r3 = Some Inactive"
    by (simp add: e3 MediaRecorder_stop_active [OF a2])
  show "started_count (trace ?r3) = started_count (trace r) + 1"
    using b c1 by (simp add: e3 MediaRecorder_stop_active [OF a2] started_count_def)
  show "length (stopped_blobs (trace ?r3)) = length (stopped_blobs (trace r)) + 1"
    using b c1 by (simp add: e3 MediaRecorder_stop_active [OF a2] stopped_blobs_def)
qed

text \<open>
  The whole of such a run, evaluated: one permission request, the timer at 00:00, the
  start, two ticks (the second one delivered by the stop), and one blob.
\<close>

lemma toggle_tick_toggle_trace:
  "trace (run granting
       [Toggle no_data, Tick \<lparr>bytes = [8], mime = ''audio/webm''\<rparr>,
        Toggle \<lparr>bytes = [9], mime = ''audio/webm''\<rparr>] Recorder_new) =
     [GetUserMedia, OnUpdateTimer ''00:00'', OnStarted, OnUpdateTimer ''00:01'',
      OnUpdateTimer ''00:02'',
      OnStopped \<lparr>bytes = [8, 9], mime = ''audio/ogg; codecs=opus''\<rparr>]"
  by (simp add: run_def toggleRecording_def startRecording_def stopRecording_def
      getMediaRecorder_def getMediaStream_def MediaRecorder_start_def MediaRecorder_stop_def
      onStop_def onDataAvailable_def addTimer_def emit_def new_Blob_def blob_size_def
      timeslice_def timer_text_def zeroPad_def String_nat_eval granting_def no_data_def
      Recorder_new_def Let_def)

section \<open>Failure to acquire the stream\<close>

text \<open>
  Claim C9. When no stream and no recorder are held and the platform refuses the
  stream or has no capture capability, a toggle (and likewise a direct start) calls
  \<open>onError\<close> exactly once and no other callback, asks the platform at most once, and
  changes nothing but the trace: no stream, no recorder, the same chunks, the same
  timer. Nothing is retried; the next acquisition is the next call's.
\<close>

theorem acquisition_failure_reported_once:
  assumes "mediaStream r = None" and "mediaRecorder r = None"
    and "getUserMedia p = Rejected err \<or> getUserMedia p = NoMediaDevices"
  shows "\<exists>msg.
           msg = (if getUserMedia p = NoMediaDevices then ''Not supported on your browser!''
                  else ''The following getUserMedia error occurred: '' @ err)
         \<and> toggleRecording p final r =
             emit ((if getUserMedia p = NoMediaDevices then [] else [GetUserMedia]) @
                   [OnError msg, UnhandledRejection (Error msg)]) r
         \<and> startRecording p r =
             emit ((if getUserMedia p = NoMediaDevices then [] else [GetUserMedia]) @
                   [OnError msg, ConsoleError (Error msg)]) r
         \<and> callbacks (trace (toggleRecording p final r)) = callbacks (trace r) @ [OnError msg]
         \<and> callbacks (trace (startRecording p r)) = callbacks (trace r) @ [OnError msg]
         \<and> mediaStream (toggleRecording p final r) = None
         \<and> mediaRecorder (toggleRecording p final r) = None
         \<and> recordedChunks (toggleRecording p final r) = recordedChunks r
         \<and> timer (toggleRecording p final r) = timer r
         \<and> length (filter (\<lambda>e. e = GetUserMedia) (trace (toggleRecording p final r)))
             \<le> length (filter (\<lambda>e. e = GetUserMedia) (trace r)) + 1"
proof -
  define msg where "msg = (if getUserMedia p = NoMediaDevices then ''Not supported on your browser!''
                  else ''The following getUserMedia error occurred: '' @ err)"
  have g: "getMediaRecorder p r =
           (Inl (Error msg),
            emit ((if getUserMedia p = NoMediaDevices then [] else [GetUserMedia]) @ [OnError msg]) r)"
    using assms msg_def by (rule getMediaRecorder_rejected)
  show ?thesis
    using assms(1,2)
    by (intro exI [of _ msg])
       (simp add: toggleRecording_def startRecording_def g emit_def callbacks_def flip: msg_def)
qed

theorem acquisition_failure_reported_once_witness:
  "toggleRecording refusing no_data Recorder_new =
     emit [GetUserMedia,
           OnError ''The following getUserMedia error occurred: NotAllowedError: Permission denied'',
           UnhandledRejection
             (Error ''The following getUserMedia error occurred: NotAllowedError: Permission denied'')]
       Recorder_new
   \<and> toggleRecording incapable no_data Recorder_new =
     emit [OnError ''Not supported on your browser!'',
           UnhandledRejection (Error ''Not supported on your browser!'')]
       Recorder_new
   \<and> mediaRecorder (toggleRecording refusing no_data Recorder_new) = None
   \<and> mediaStream (toggleRecording refusing no_data Recorder_new) = None"
  using acquisition_failure_reported_once
      [of Recorder_new refusing "''NotAllowedError: Permission denied''" no_data]
    acquisition_failure_reported_once [of Recorder_new incapable "[]" no_data]
  by (auto simp: refusing_def incapable_def Recorder_new_def emit_def)

text \<open>After a refusal the next toggle asks the platform again, and records if it agrees.\<close>

lemma retrigger_after_refusal:
  "mediaRecorder (toggleRecording granting no_data (toggleRecording refusing no_data Recorder_new))
     = Some Recording
   \<and> length (filter (\<lambda>e. e = GetUserMedia)
        (trace (toggleRecording granting no_data (toggleRecording refusing no_data Recorder_new)))) = 2"
  by (simp add: toggleRecording_def startRecording_def getMediaRecorder_def getMediaStream_def
      MediaRecorder_start_def addTimer_def emit_def granting_def refusing_def Recorder_new_def
      Let_def)

section \<open>The pause button on an idle recorder\<close>

text \<open>
  Claim C4, as stated, fails: on a fresh Recorder a pause click asks the platform for the
  microphone. If the platform agrees, the stream and the recorder are acquired and kept;
  if it refuses, \<open>onError\<close> is called.
\<close>

theorem togglePause_idle_counterexample:
  "mediaStream Recorder_new = None
   \<and> mediaRecorder Recorder_new = None
   \<and> mediaStream (togglePauseRecording granting Recorder_new) = Some 7
   \<and> mediaRecorder (togglePauseRecording granting Recorder_new) = Some Inactive
   \<and> trace (togglePauseRecording granting Recorder_new) = [GetUserMedia]
   \<and> togglePauseRecording granting Recorder_new \<noteq> Recorder_new
   \<and> callbacks (trace (togglePauseRecording refusing Recorder_new))
       = [OnError ''The following getUserMedia error occurred: NotAllowedError: Permission denied'']"
  by (simp add: togglePauseRecording_def getMediaRecorder_def getMediaStream_def emit_def
      Recorder_new_def granting_def refusing_def callbacks_def Let_def)

text \<open>
  Claim C4, amended. On an inactive recorder \<open>togglePauseRecording\<close> never calls
  \<open>onTogglePaused\<close> and leaves the timer and the chunks as they are. With the recorder
  already held it changes nothing at all. With no recorder yet it acquires one: when
  that succeeds, the stream and an inactive recorder are held afterwards and no callback
  has fired; when the platform refuses the stream or cannot capture, no handle is held
  and \<open>onError\<close> is the one callback that fired.
\<close>

theorem togglePause_idle:
  assumes "mediaRecorder r = None \<or> mediaRecorder r = Some Inactive"
  shows "(mediaRecorder r = Some Inactive \<longrightarrow> togglePauseRecording p r = r)
       \<and> (mediaRecorder r = None \<and> fst (getMediaRecorder p r) = Inr () \<longrightarrow>
            mediaRecorder (togglePauseRecording p r) = Some Inactive
          \<and> mediaStream (togglePauseRecording p r) \<noteq> None
          \<and> callbacks (trace (togglePauseRecording p r)) = callbacks (trace r))
       \<and> (mediaRecorder r = None \<and> mediaStream r = None
            \<and> (getUserMedia p = Rejected err \<or> getUserMedia p = NoMediaDevices) \<longrightarrow>
            mediaRecorder (togglePauseRecording p r) = None
          \<and> mediaStream (togglePauseRecording p r) = None
          \<and> (\<exists>msg. callbacks (trace (togglePauseRecording p r)) = callbacks (trace r) @ [OnError msg]))
       \<and> timer (togglePauseRecording p r) = timer r
       \<and> recordedChunks (togglePauseRecording p r) = recordedChunks r
       \<and> pause_notices (trace (togglePauseRecording p r)) = pause_notices (trace r)"
proof (intro conjI impI)
  assume "mediaRecorder r = Some Inactive"
  then show "togglePauseRecording p r = r"
    by (simp add: togglePauseRecording_def getMediaRecorder_cached)
next
  assume a: "mediaRecorder r = None \<and> fst (getMediaRecorder p r) = Inr ()"
  then obtain r1 where g: "getMediaRecorder p r = (Inr (), r1)"
    by (cases "getMediaRecorder p r") auto
  have m: "mediaRecorder r1 = Some Inactive"
    using getMediaRecorder_resolved(1) [of p r] a g by auto
  have e: "togglePauseRecording p r = r1"
    by (simp add: togglePauseRecording_def g m)
  show "mediaRecorder (togglePauseRecording p r) = Some Inactive"
    by (simp add: e m)
  show "mediaStream (togglePauseRecording p r) \<noteq> None"
    using getMediaRecorder_resolved(2) [of p r] a g by (simp add: e)
  show "callbacks (trace (togglePauseRecording p r)) = callbacks (trace r)"
    using getMediaRecorder_resolved(3) [of p r] a g by (simp add: e)
next
  assume a: "mediaRecorder r = None \<and> mediaStream r = None
            \<and> (getUserMedia p = Rejected err \<or> getUserMedia p = NoMediaDevices)"
  define msg where "msg = (if getUserMedia p = NoMediaDevices then ''Not supported on your browser!''
                  else ''The following getUserMedia error occurred: '' @ err)"
  have g: "getMediaRecorder p r =
           (Inl (Error msg),
            emit ((if getUserMedia p = NoMediaDevices then [] else [GetUserMedia]) @ [OnError msg]) r)"
    using a msg_def by (intro getMediaRecorder_rejected [where err = err]) simp_all
  show "mediaRecorder (togglePauseRecording p r) = None"
    using a by (simp add: togglePauseRecording_def g emit_def)
  show "mediaStream (togglePauseRecording p r) = None"
    using a by (simp add: togglePauseRecording_def g emit_def)
  show "\<exists>msg. callbacks (trace (togglePauseRecording p r)) = callbacks (trace r) @ [OnError msg]"
    by (intro exI [of _ msg]) (simp add: togglePauseRecording_def g emit_def callbacks_def)
next
  show "timer (togglePauseRecording p r) = timer r"
    using assms getMediaRecorder_frame [of p r] getMediaRecorder_resolved(1) [of p r]
    by (cases "getMediaRecorder p r"; cases "fst (getMediaRecorder p r)")
       (auto simp: togglePauseRecording_def emit_def)
  show "recordedChunks (togglePauseRecording p r) = recordedChunks r"
    using assms getMediaRecorder_frame [of p r] getMediaRecorder_resolved(1) [of p r]
    by (cases "getMediaRecorder p r"; cases "fst (getMediaRecorder p r)")
       (auto simp: togglePauseRecording_def emit_def)
  show "pause_notices (trace (togglePauseRecording p r)) = pause_notices (trace r)"
    using assms
    by (auto simp: togglePauseRecording_def getMediaRecorder_def getMediaStream_def emit_def
        pause_notices_def Let_def split: option.splits acquire.splits)
qed

theorem togglePause_idle_witness:
  "togglePauseRecording granting stopped_example = stopped_example
   \<and> mediaRecorder (togglePauseRecording granting Recorder_new) = Some Inactive
   \<and> mediaStream (togglePauseRecording granting Recorder_new) \<noteq> None
   \<and> callbacks (trace (togglePauseRecording granting Recorder_new)) = []
   \<and> mediaRecorder (togglePauseRecording refusing Recorder_new) = None
   \<and> mediaStream (togglePauseRecording refusing Recorder_new) = None
   \<and> (\<exists>msg. callbacks (trace (togglePauseRecording refusing Recorder_new)) = [OnError msg])
   \<and> pause_notices (trace (togglePauseRecording granting Recorder_new)) = []"
  using togglePause_idle [of stopped_example granting "[]"]
    togglePause_idle [of Recorder_new granting "[]"]
    togglePause_idle [of Recorder_new refusing "''NotAllowedError: Permission denied''"]
  by (simp add: stopped_example_def granting_def refusing_def Recorder_new_def getMediaRecorder_def
      getMediaStream_def emit_def callbacks_def pause_notices_def)

section \<open>The timer counts whole seconds\<close>

lemma step_timer_whole_seconds:
  assumes "1000 dvd timer r"
  shows "1000 dvd timer (step p i r)"
proof (cases i)
  case (Tick d)
  then show ?thesis using assms
    by (simp add: onDataAvailable_def addTimer_def emit_def timeslice_def Let_def)
next
  case TogglePause
  then show ?thesis using assms getMediaRecorder_frame [of p r]
    by (cases "getMediaRecorder p r"; cases "fst (getMediaRecorder p r)")
       (auto simp: togglePauseRecording_def emit_def)
next
  case Start
  then show ?thesis using assms getMediaRecorder_frame [of p r]
    by (cases "getMediaRecorder p r"; cases "fst (getMediaRecorder p r)")
       (auto simp: startRecording_def emit_def addTimer_def MediaRecorder_start_def Let_def)
next
  case (Stop final)
  then show ?thesis using assms getMediaRecorder_frame [of p r]
    by (cases "getMediaRecorder p r"; cases "fst (getMediaRecorder p r)")
       (auto simp: stopRecording_def emit_def MediaRecorder_stop_def onStop_def
         onDataAvailable_def addTimer_def timeslice_def Let_def)
next
  case (Toggle final)
  obtain res r1 where g: "getMediaRecorder p r = (res, r1)"
    by (cases "getMediaRecorder p r")
  have t1: "1000 dvd timer r1"
    using assms getMediaRecorder_frame [of p r] g by simp
  have "1000 dvd timer (startRecording p r1)"
    using t1 getMediaRecorder_frame [of p r1]
    by (cases "getMediaRecorder p r1"; cases "fst (getMediaRecorder p r1)")
       (auto simp: startRecording_def emit_def addTimer_def MediaRecorder_start_def Let_def)
  moreover have "1000 dvd timer (stopRecording p final r1)"
    using t1 getMediaRecorder_frame [of p r1]
    by (cases "getMediaRecorder p r1"; cases "fst (getMediaRecorder p r1)")
       (auto simp: stopRecording_def emit_def MediaRecorder_stop_def onStop_def
         onDataAvailable_def addTimer_def timeslice_def Let_def)
  ultimately show ?thesis using Toggle g t1
    by (cases res) (auto simp: toggleRecording_def emit_def)
qed

lemma run_timer_whole_seconds:
  "1000 dvd timer r \<Longrightarrow> 1000 dvd timer (run p inputs r)"
  unfolding run_def
  by (induction inputs arbitrary: r) (simp_all add: step_timer_whole_seconds)

lemma Recorder_new_timer_whole_seconds: "1000 dvd timer (run p inputs Recorder_new)"
  by (rule run_timer_whole_seconds) (simp add: Recorder_new_def)

section \<open>Calls that overlap\<close>

lemmas recorder_eval =
  toggleRecording_def startRecording_def stopRecording_def togglePauseRecording_def
  getMediaRecorder_def getMediaStream_def MediaRecorder_start_def MediaRecorder_stop_def
  onStop_def onDataAvailable_def addTimer_def emit_def new_Blob_def blob_size_def
  timeslice_def timer_text_def zeroPad_def String_nat_eval Let_def

lemma async_run_append: "async_run p (xs @ ys) s = async_run p ys (async_run p xs s)"
  by (simp add: async_run_def)

lemma async_step_held:
  "mediaRecorder (recorder s) \<noteq> None \<Longrightarrow>
     async_step p (Input i) s = s\<lparr>recorder := step p i (recorder s)\<rparr>"
  by (cases i) (auto simp: needs_request_def)

text \<open>
  With nothing pending, a call followed at once by its answer is the operation of the
  Recorder section: those operations are the sessions in which no two calls overlap.
\<close>

lemma settled_call_is_step:
  assumes "pending s = []"
  shows "async_run p (settled_call p i (recorder s)) s = s\<lparr>recorder := step p i (recorder s)\<rparr>"
proof (cases "needs_request p (recorder s)")
  case False
  then show ?thesis
    by (cases i) (simp_all add: settled_call_def async_run_def)
next
  case True
  then have n: "mediaRecorder (recorder s) = None" "mediaStream (recorder s) = None"
    by (simp_all add: needs_request_def)
  have ps: "s\<lparr>pending := [], recorder := X\<rparr> = s\<lparr>recorder := X\<rparr>" for X
    using assms by (cases s) simp
  show ?thesis
  proof (cases "getUserMedia p")
    case NoMediaDevices
    then show ?thesis using True by (simp add: needs_request_def)
  next
    case (Rejected err)
    then show ?thesis using True n assms
      by (cases i)
         (simp_all add: settled_call_def async_run_def settle_def toggleRecording_def
           startRecording_def stopRecording_def togglePauseRecording_def getMediaRecorder_def
           getMediaStream_def emit_def onDataAvailable_def addTimer_def MediaRecorder_start_def
           MediaRecorder_stop_def ps Let_def)
  next
    case (Stream st)
    then show ?thesis using True n assms
      by (cases i)
         (simp_all add: settled_call_def async_run_def settle_def toggleRecording_def
           startRecording_def stopRecording_def togglePauseRecording_def getMediaRecorder_def
           getMediaStream_def emit_def onDataAvailable_def addTimer_def MediaRecorder_start_def
           MediaRecorder_stop_def ps Let_def)
  qed
qed

lemma async_run_inputs_held:
  assumes "active (recorder s)" and "list_all is_tick_or_pause mid"
  shows "async_run p (map Input mid) s = s\<lparr>recorder := run p mid (recorder s)\<rparr>"
  using assms
proof (induction mid arbitrary: s)
  case Nil
  then show ?case by (simp add: async_run_def run_def)
next
  case (Cons i mid)
  have h: "mediaRecorder (recorder s) \<noteq> None"
    using Cons.prems(1) by (auto simp: active_def)
  have e: "async_step p (Input i) s = s\<lparr>recorder := step p i (recorder s)\<rparr>"
    by (rule async_step_held [OF h])
  have a: "active (step p i (recorder s))"
    using step_between [of "recorder s" i p] Cons.prems by simp
  have m: "list_all is_tick_or_pause mid" using Cons.prems by simp
  have "async_run p (map Input (i # mid)) s
          = async_run p (map Input mid) (s\<lparr>recorder := step p i (recorder s)\<rparr>)"
    by (simp add: async_run_def e)
  also have "\<dots> = s\<lparr>recorder := run p mid (step p i (recorder s))\<rparr>"
    using Cons.IH [of "s\<lparr>recorder := step p i (recorder s)\<rparr>"] a m by simp
  finally show ?case by (simp add: run_def)
qed

text \<open>The timer counts whole seconds in every session, overlapping calls or not.\<close>

lemma async_step_timer_whole_seconds:
  assumes "1000 dvd timer (recorder s)"
  shows "1000 dvd timer (recorder (async_step p ev s))"
proof (cases ev)
  case (Input i)
  then show ?thesis
    using assms step_timer_whole_seconds [OF assms, of p i]
    by (cases i) (auto simp: emit_def)
next
  case (Settle a)
  show ?thesis
  proof (cases "pending s")
    case Nil
    then show ?thesis using assms Settle by simp
  next
    case (Cons i rest)
    have "1000 dvd timer
            (step p i (recorder s\<lparr>mediaStream := Some st, mediaRecorder := Some Inactive\<rparr>))" for st
      by (rule step_timer_whole_seconds) (simp add: assms)
    then show ?thesis using assms Settle Cons
      by (cases a) (auto simp: settle_def emit_def Let_def)
  qed
qed

lemma async_run_timer_whole_seconds:
  "1000 dvd timer (recorder s) \<Longrightarrow> 1000 dvd timer (recorder (async_run p evs s))"
  unfolding async_run_def
  by (induction evs arbitrary: s) (simp_all add: async_step_timer_whole_seconds)

text \<open>
  Claim C8, as stated, fails. Two toggles from a fresh Recorder, the second one called
  while the first permission request is still open, both ask for the microphone and each
  starts a recorder of its own: the widget ends recording, with two starts and no stop.
  And when the platform refuses the stream, two toggles end with no recorder and no
  recording at all.
\<close>

theorem toggle_twice_counterexample:
  "mediaRecorder (recorder (async_run granting overlapping_toggles Session_new)) = Some Recording
   \<and> mediaRecorder (recorder (async_run granting overlapping_toggles Session_new)) \<noteq> Some Inactive
   \<and> replaced (async_run granting overlapping_toggles Session_new) = [Recording]
   \<and> pending (async_run granting overlapping_toggles Session_new) = []
   \<and> trace (recorder (async_run granting overlapping_toggles Session_new)) =
       [GetUserMedia, GetUserMedia, OnUpdateTimer ''00:00'', OnStarted,
        OnUpdateTimer ''00:00'', OnStarted]
   \<and> started_count (trace (recorder (async_run granting overlapping_toggles Session_new))) = 2
   \<and> stopped_blobs (trace (recorder (async_run granting overlapping_toggles Session_new))) = []
   \<and> mediaRecorder (recorder (async_run refusing refused_toggles Session_new)) = None
   \<and> started_count (trace (recorder (async_run refusing refused_toggles Session_new))) = 0"
  by (simp add: async_run_def overlapping_toggles_def refused_toggles_def Session_new_def
      Recorder_new_def granting_def refusing_def no_data_def needs_request_def settle_def
      started_count_def stopped_blobs_def recorder_eval)

text \<open>
  Claim C8, amended. When no request is pending and the recorder is or becomes
  available, a toggle that settles before the next call is \<open>startRecording\<close> on an
  inactive recorder (none yet, or stopped) and \<open>stopRecording\<close> on a recording or paused
  one. Two such toggles from an inactive recorder, the second one called after the first
  has settled, with any ticks and pause clicks in between, end with the recorder
  inactive, having started exactly once and stopped exactly once, and with nothing
  pending.
\<close>

theorem toggle_settled_dispatch:
  assumes "pending s = []" and "fst (getMediaRecorder p (recorder s)) = Inr ()"
  shows "(mediaRecorder (recorder s) = None \<or> mediaRecorder (recorder s) = Some Inactive
            \<longrightarrow> async_run p (settled_call p (Toggle final) (recorder s)) s
                  = s\<lparr>recorder := startRecording p (recorder s)\<rparr>)
       \<and> (mediaRecorder (recorder s) = Some Recording \<or> mediaRecorder (recorder s) = Some Paused
            \<longrightarrow> async_run p (settled_call p (Toggle final) (recorder s)) s
                  = s\<lparr>recorder := stopRecording p final (recorder s)\<rparr>)
       \<and> (mediaRecorder (recorder s) = None \<or> mediaRecorder (recorder s) = Some Inactive
            \<longrightarrow> list_all is_tick_or_pause mid
            \<longrightarrow> mediaRecorder (recorder (async_run p (settled_call p (Toggle unused) (recorder s)) s))
                  = Some Recording
              \<and> mediaRecorder (recorder (async_run p
                    (settled_call p (Toggle unused) (recorder s) @ map Input mid @ [Input (Toggle final)]) s))
                  = Some Inactive
              \<and> started_count (trace (recorder (async_run p
                    (settled_call p (Toggle unused) (recorder s) @ map Input mid @ [Input (Toggle final)]) s)))
                  = started_count (trace (recorder s)) + 1
              \<and> length (stopped_blobs (trace (recorder (async_run p
                    (settled_call p (Toggle unused) (recorder s) @ map Input mid @ [Input (Toggle final)]) s))))
                  = length (stopped_blobs (trace (recorder s))) + 1
              \<and> pending (async_run p
                    (settled_call p (Toggle unused) (recorder s) @ map Input mid @ [Input (Toggle final)]) s)
                  = [])"
proof (intro conjI impI)
  have c: "async_run p (settled_call p (Toggle u) (recorder s)) s
             = s\<lparr>recorder := toggleRecording p u (recorder s)\<rparr>" for u
    using settled_call_is_step [OF assms(1), of p "Toggle u"] by simp
  {
    assume i: "mediaRecorder (recorder s) = None \<or> mediaRecorder (recorder s) = Some Inactive"
    show "async_run p (settled_call p (Toggle final) (recorder s)) s
            = s\<lparr>recorder := startRecording p (recorder s)\<rparr>"
      by (simp add: c toggleRecording_inactive [OF assms(2) i])
  }
  {
    assume a: "mediaRecorder (recorder s) = Some Recording \<or> mediaRecorder (recorder s) = Some Paused"
    show "async_run p (settled_call p (Toggle final) (recorder s)) s
            = s\<lparr>recorder := stopRecording p final (recorder s)\<rparr>"
      by (simp add: c toggleRecording_active [OF a])
  }
  {
    assume i: "mediaRecorder (recorder s) = None \<or> mediaRecorder (recorder s) = Some Inactive"
      and m: "list_all is_tick_or_pause mid"
    let ?r1 = "toggleRecording p unused (recorder s)"
    let ?s1 = "s\<lparr>recorder := ?r1\<rparr>"
    let ?r2 = "run p mid ?r1"
    let ?r3 = "toggleRecording p final ?r2"
    let ?evs = "settled_call p (Toggle unused) (recorder s) @ map Input mid @ [Input (Toggle final)]"
    have d: "mediaRecorder ?r1 = Some Recording
           \<and> mediaRecorder ?r3 = Some Inactive
           \<and> started_count (trace ?r3) = started_count (trace (recorder s)) + 1
           \<and> length (stopped_blobs (trace ?r3)) = length (stopped_blobs (trace (recorder s))) + 1"
      using toggleRecording_settled [OF assms(2), of final mid unused] i m by simp
    then have a1: "active (recorder ?s1)"
      by (simp add: active_def)
    have s2: "async_run p (map Input mid) ?s1 = s\<lparr>recorder := ?r2\<rparr>"
      using async_run_inputs_held [OF a1 m, of p] by simp
    have "active ?r2"
      using run_between [of ?r1 mid p] a1 m by simp
    then have h2: "mediaRecorder (recorder (s\<lparr>recorder := ?r2\<rparr>)) \<noteq> None"
      by (auto simp: active_def)
    have s3: "async_run p ?evs s = s\<lparr>recorder := ?r3\<rparr>"
      using async_step_held [OF h2, of p "Toggle final"]
      by (simp add: async_run_append c s2) (simp add: async_run_def)
    show "mediaRecorder (recorder (async_run p (settled_call p (Toggle unused) (recorder s)) s))
            = Some Recording"
      using d by (simp add: c)
    show "mediaRecorder (recorder (async_run p ?evs s)) = Some Inactive"
      using d by (simp add: s3)
    show "started_count (trace (recorder (async_run p ?evs s)))
            = started_count (trace (recorder s)) + 1"
      using d by (simp add: s3)
    show "length (stopped_blobs (trace (recorder (async_run p ?evs s))))
            = length (stopped_blobs (trace (recorder s))) + 1"
      using d by (simp add: s3)
    show "pending (async_run p ?evs s) = []"
      using assms(1) by (simp add: s3)
  }
qed

theorem toggle_settled_dispatch_witness:
  "async_run granting [Input (Toggle no_data), Settle (Granted 7)] Session_new
     = Session_new\<lparr>recorder := startRecording granting Recorder_new\<rparr>
   \<and> async_run granting [Input (Toggle \<lparr>bytes = [4, 5], mime = ''audio/webm''\<rparr>)]
        \<lparr>recorder = recording_example, replaced = [], pending = []\<rparr>
     = \<lparr>recorder = stopRecording granting \<lparr>bytes = [4, 5], mime = ''audio/webm''\<rparr> recording_example,
        replaced = [], pending = []\<rparr>
   \<and> mediaRecorder (recorder (async_run granting settled_toggles Session_new)) = Some Inactive
   \<and> started_count (trace (recorder (async_run granting settled_toggles Session_new))) = 1
   \<and> length (stopped_blobs (trace (recorder (async_run granting settled_toggles Session_new)))) = 1
   \<and> pending (async_run granting settled_toggles Session_new) = []"
  using toggle_settled_dispatch [where s = Session_new and p = granting and final = no_data
      and mid = "[]" and unused = no_data]
    toggle_settled_dispatch [where s = "\<lparr>recorder = recording_example, replaced = [], pending = []\<rparr>"
      and p = granting and final = "\<lparr>bytes = [4, 5], mime = ''audio/webm''\<rparr>"
      and mid = "[]" and unused = no_data]
    toggle_settled_dispatch [where s = Session_new and p = granting
      and final = "\<lparr>bytes = [9], mime = ''audio/webm''\<rparr>"
      and mid = "[Tick \<lparr>bytes = [8], mime = ''audio/webm''\<rparr>, TogglePause, TogglePause]"
      and unused = no_data]
  by (simp add: settled_toggles_def settled_call_def needs_request_def Session_new_def
      Recorder_new_def recording_example_def granting_def getMediaRecorder_def
      getMediaStream_def emit_def started_count_def stopped_blobs_def)

text \<open>The settled session, evaluated: what the overlapping one should have been.\<close>

lemma settled_toggles_trace:
  "trace (recorder (async_run granting settled_toggles Session_new)) =
     [GetUserMedia, OnUpdateTimer ''00:00'', OnStarted, OnUpdateTimer ''00:01'',
      OnTogglePaused True, OnTogglePaused False, OnUpdateTimer ''00:02'',
      OnStopped \<lparr>bytes = [8, 9], mime = ''audio/ogg; codecs=opus''\<rparr>]
   \<and> replaced (async_run granting settled_toggles Session_new) = []"
  by (simp add: async_run_def settled_toggles_def Session_new_def Recorder_new_def
      granting_def no_data_def needs_request_def settle_def recorder_eval)

section \<open>Properties of the presenter\<close>

lemma set_classList_add: "set (classList_add c cs) = insert c (set cs)"
  by (auto simp: classList_add_def)

lemma set_classList_remove: "set (classList_remove c cs) = set cs - {c}"
  by (auto simp: classList_remove_def)

lemma set_classList_toggle:
  "set (classList_toggle c force cs) = (if force then insert c (set cs) else set cs - {c})"
  by (simp add: classList_toggle_def set_classList_add set_classList_remove)

lemma status_class_inj: "(status_class a = status_class b) = (a = b)"
  by (simp add: status_class_def)

text \<open>Whatever classes the wrapper had, after \<open>toggleStatus s\<close> it shows status \<open>s\<close> only.\<close>

lemma shown_status_toggleStatus:
  "s \<in> set Ui_status \<Longrightarrow> shown_status (toggleStatus s u) = [s]"
  by (auto simp: shown_status_def toggleStatus_def Ui_status_def set_classList_toggle
      status_class_inj status_EMPTY_def status_UPLOADING_def status_FILLED_def)

lemma audioContainer_toggleStatus: "audioContainer (toggleStatus s u) = audioContainer u"
  by (simp add: toggleStatus_def)

section \<open>Properties of the controller\<close>

lemma data_keys_set_audio:
  "data_keys t = [''file''] \<or> data_keys t = [] \<Longrightarrow> data_keys (set_audio f t) = [''file'']"
  by (cases "data_priv t") (auto simp: data_keys_def set_audio_def Let_def split: sum.splits)

lemma data_priv_set_audio:
  "data_keys t = [''file''] \<Longrightarrow> truthy f \<Longrightarrow> data_priv (set_audio f t) = [(''file'', f)]"
  by (cases "data_priv t") (auto simp: data_keys_def set_audio_def Let_def split: sum.splits)

lemma data_priv_set_audio_fresh:
  "data_priv t = [] \<Longrightarrow> truthy f \<Longrightarrow> data_priv (set_audio f t) = [(''file'', f)]"
  by (auto simp: set_audio_def Let_def split: sum.splits)

lemma VoiceRecord_new_data_keys:
  "VoiceRecord_new b tr d = Inr t \<Longrightarrow> data_keys t = [''file'']"
proof -
  assume a: "VoiceRecord_new b tr d = Inr t"
  let ?t0 = "\<lparr>ui = Ui_new b, data_priv = [], i18n_t = tr, effects = []\<rparr>"
  from a obtain f where "t = set_audio f ?t0"
    by (auto simp: VoiceRecord_new_def set_data_def split: sum.splits)
  moreover have "data_keys ?t0 = []" by (simp add: data_keys_def)
  ultimately show ?thesis by (simp add: data_keys_set_audio)
qed

lemma onUpload_data_keys:
  "data_keys t = [''file''] \<Longrightarrow> onUpload response t = Inr t' \<Longrightarrow> data_keys t' = [''file'']"
  by (auto simp: onUpload_def Let_def data_keys_set_audio split: sum.splits if_splits)
     (simp add: uploadingFailed_def data_keys_def)+

lemma render_data_keys:
  "data_keys t = [''file''] \<Longrightarrow> render t = Inr t' \<Longrightarrow> data_keys t' = [''file'']"
  by (auto simp: render_def data_keys_def split: sum.splits)

lemma empty_block_constructed: "VoiceRecord_new ''cdx-block'' id (JObj []) = Inr empty_block"
  by (simp add: VoiceRecord_new_def set_data_def set_audio_def empty_block_def)

text \<open>
  Claim C1. On a constructed controller, an upload response whose \<open>success\<close> is truthy
  (in particular \<open>true\<close>) and whose \<open>file\<close> is an object \<open>F\<close> makes \<open>onUpload\<close>
  store \<open>F\<close>, every field of it as received, so that \<open>save\<close> returns \<open>{file: F}\<close>;
  and a controller constructed from that saved value saves the same value again.
\<close>

theorem onUpload_persists_file:
  assumes "data_keys t = [''file'']"
    and "map_of resp ''success'' = Some s" and "truthy s"
    and "map_of resp ''file'' = Some (JObj F)"
  shows "\<exists>t'. onUpload (JObj resp) t = Inr t'
           \<and> save t' = JObj [(''file'', JObj F)]
           \<and> (\<exists>t''. VoiceRecord_new baseClass tr (save t') = Inr t'' \<and> save t'' = save t')"
proof -
  let ?t' = "set_audio (JObj F) t"
  let ?t0 = "\<lparr>ui = Ui_new baseClass, data_priv = [], i18n_t = tr, effects = []\<rparr>"
  have u: "onUpload (JObj resp) t = Inr ?t'"
    using assms(2-4) by (simp add: onUpload_def)
  have d: "data_priv ?t' = [(''file'', JObj F)]"
    using assms(1) by (simp add: data_priv_set_audio)
  then have s: "save ?t' = JObj [(''file'', JObj F)]"
    by (simp add: save_def get_data_def)
  have n: "VoiceRecord_new baseClass tr (save ?t') = Inr (set_audio (JObj F) ?t0)"
    by (simp add: s VoiceRecord_new_def set_data_def)
  have "data_priv (set_audio (JObj F) ?t0) = [(''file'', JObj F)]"
    by (simp add: data_priv_set_audio_fresh)
  then have "save (set_audio (JObj F) ?t0) = save ?t'"
    using d by (simp add: save_def get_data_def)
  with u s n show ?thesis by blast
qed

theorem onUpload_persists_file_witness:
  "VoiceRecord_new ''cdx-block'' id (JObj []) = Inr empty_block
   \<and> (\<exists>t'. onUpload (JObj [(''success'', JBool True),
                          (''file'', JObj [(''url'', JStr ''https://x/a.ogg'')])]) empty_block = Inr t'
          \<and> save t' = JObj [(''file'', JObj [(''url'', JStr ''https://x/a.ogg'')])])"
  using onUpload_persists_file [of empty_block
      "[(''success'', JBool True), (''file'', JObj [(''url'', JStr ''https://x/a.ogg'')])]"
      "JBool True" "[(''url'', JStr ''https://x/a.ogg'')]" "''cdx-block''" id]
    empty_block_constructed
  by (auto simp: data_keys_def empty_block_def)

text \<open>
  Claim C2. For a response that is not \<open>null\<close> or \<open>undefined\<close> and whose \<open>success\<close>
  is falsy or whose \<open>file\<close> is absent, \<open>onUpload\<close> calls \<open>uploadingFailed\<close> once,
  with the text \<open>incorrect response: \<close> followed by the JSON serialization of the
  response; that logs the text, shows one error notification and resets the presenter.
  The saved data stay as they were.
\<close>

theorem onUpload_failure:
  assumes "js_get response ''success'' = Inr s"
    and "\<not> truthy s \<or> js_get response ''file'' = Inr JUndefined"
  shows "\<exists>js. json_stringify response = Some js
           \<and> onUpload response t = Inr (uploadingFailed (''incorrect response: '' @ js) t)
           \<and> effects (uploadingFailed (''incorrect response: '' @ js) t) = effects t @
               [ConsoleLog ''Voice Tool: uploading failed because of'' (''incorrect response: '' @ js),
                NotifierShow (i18n_t t upload_failed_message) ''error'']
           \<and> data_priv (uploadingFailed (''incorrect response: '' @ js) t) = data_priv t
           \<and> save (uploadingFailed (''incorrect response: '' @ js) t) = save t"
  using assms
  by (cases response)
     (auto simp: onUpload_def uploadingFailed_def concat_stringified_def save_def get_data_def
       Let_def split: sum.splits)

theorem onUpload_failure_witness:
  "onUpload (JObj [(''success'', JBool False)]) empty_block =
     Inr (uploadingFailed
       (''incorrect response: {'' @ [CHR 0x22] @ ''success'' @ [CHR 0x22] @ '':false}'') empty_block)
   \<and> save (uploadingFailed
       (''incorrect response: {'' @ [CHR 0x22] @ ''success'' @ [CHR 0x22] @ '':false}'') empty_block)
     = JObj [(''file'', JObj [])]
   \<and> onUpload (JObj [(''success'', JNum 1)]) empty_block =
     Inr (uploadingFailed
       (''incorrect response: {'' @ [CHR 0x22] @ ''success'' @ [CHR 0x22] @ '':1}'') empty_block)"
  using onUpload_failure [of "JObj [(''success'', JBool False)]" "JBool False" empty_block]
    onUpload_failure [of "JObj [(''success'', JNum 1)]" "JNum 1" empty_block]
  by (simp add: json_quote_def json_escape_def String_int_def String_nat_eval
      save_def get_data_def uploadingFailed_def empty_block_def)

text \<open>
  Claim C3, as stated, fails: after the constructor and \<open>render\<close> on saved data with a
  URL the widget shows the loading status, not the filled one.
\<close>

theorem load_block_filled_counterexample:
  "status_after_load ''cdx-block'' id (JObj [(''file'', JObj [(''url'', JStr ''https://x/a.ogg'')])])
     = Inr [status_UPLOADING]
   \<and> status_after_load ''cdx-block'' id (JObj [(''file'', JObj [(''url'', JStr ''https://x/a.ogg'')])])
     \<noteq> Inr [status_FILLED]"
  by (simp add: status_after_load_def load_block_def VoiceRecord_new_def set_data_def set_audio_def render_def
      Ui_render_def get_data_def shown_status_toggleStatus Ui_status_def
      status_UPLOADING_def status_FILLED_def)

text \<open>
  Claim C3, amended. Constructing the controller with saved data \<open>{file: F}\<close>, where
  \<open>F\<close> has a non-empty \<open>url\<close> \<open>U\<close>, and rendering it calls no Uploader operation,
  creates one audio element with source \<open>U\<close>, keeps the data for the next \<open>save\<close>, and
  shows the loading status; the widget shows the filled status once that audio
  element's \<open>loadeddata\<close> event has fired.
\<close>

theorem load_block_saved_url:
  assumes "map_of F ''url'' = Some (JStr U)" and "U \<noteq> []"
  shows "\<exists>t. load_block baseClass tr (JObj [(''file'', JObj F)]) = Inr t
           \<and> shown_status (ui t) = [status_UPLOADING]
           \<and> audioContainer (ui t) = [JStr U]
           \<and> shown_status (audio_loadeddata (ui t)) = [status_FILLED]
           \<and> uploader_calls t = []
           \<and> save t = JObj [(''file'', JObj F)]"
proof -
  have "F \<noteq> []" using assms(1) by auto
  then have k: "remdups (map fst F) \<noteq> []" by simp
  show ?thesis
    using assms k
    by (simp add: load_block_def VoiceRecord_new_def set_data_def set_audio_def render_def
      Ui_render_def get_data_def shown_status_toggleStatus Ui_status_def audio_loadeddata_def
      fillVoice_def Ui_new_def audioContainer_toggleStatus uploader_calls_def save_def)
qed

theorem load_block_saved_url_witness:
  "(\<exists>t. load_block ''cdx-block'' id
           (JObj [(''file'', JObj [(''url'', JStr ''https://x/a.ogg''), (''size'', JNum 91)])]) = Inr t
        \<and> shown_status (ui t) = [status_UPLOADING]
        \<and> audioContainer (ui t) = [JStr ''https://x/a.ogg'']
        \<and> shown_status (audio_loadeddata (ui t)) = [status_FILLED]
        \<and> uploader_calls t = []
        \<and> save t = JObj [(''file'', JObj [(''url'', JStr ''https://x/a.ogg''), (''size'', JNum 91)])])"
  using load_block_saved_url [of "[(''url'', JStr ''https://x/a.ogg''), (''size'', JNum 91)]"
      "''https://x/a.ogg''" "''cdx-block''" id]
  by simp

text \<open>
  What the presenter shows of the Recorder: the text of a timer callback is the
  timer's text, and a capture error resets the widget to the empty status with one
  error notification.
\<close>

lemma deliver_timer_text:
  "timerComponent (ui (deliver (OnUpdateTimer v) t)) = v"
  by (simp add: onRecorderUpdateTimer_def updateTimer_def)

lemma deliver_capture_error:
  "shown_status (ui (deliver (OnError msg) t)) = [status_EMPTY]
   \<and> effects (deliver (OnError msg) t) = effects t @
       [ConsoleLog ''Voice Tool: recording failed because of'' msg,
        NotifierShow (i18n_t t record_failed_message) ''error'']
   \<and> data_priv (deliver (OnError msg) t) = data_priv t"
  by (simp add: onRecorderFailed_def hidePreloader_def shown_status_toggleStatus Ui_status_def)

text \<open>The operations that do reach the Uploader leave their call in the trace.\<close>

lemma uploader_calls_examples:
  "uploader_calls (onRecorderStopped b empty_block) = [UploadAudioBlob b]
   \<and> uploader_calls (uploadFile b empty_block) = [UploadByFile b]
   \<and> uploader_calls (uploadUrl u empty_block) = [UploadByUrl u]"
  by (simp add: uploader_calls_def onRecorderStopped_def uploadFile_def uploadUrl_def
      empty_block_def)

end
